theory Spec2Isabelle
  imports Main "HOL-Library.Word"
begin

section \<open>Operator node contents of the optimizer (optimizer/operator\_node\_contents.h)\<close>

text \<open>
  The header declares three classes: the abstract interface \<open>BaseOperatorNodeContents\<close>,
  the adapter template \<open>OperatorNodeContents<T>\<close> and the handle \<open>Operator\<close>, which owns
  one instance through \<open>std::unique_ptr<BaseOperatorNodeContents> contents_\<close>.  It also
  specialises \<open>std::hash\<close> for the interface.

  Objects live in an explicit store, a handle holds the address of the object it owns
  (or no address: \<open>nullptr\<close>), and an exception or a null dereference is a value of the
  type \<open>error\<close>.
\<close>

subsection \<open>Types of the included headers\<close>

text \<open>
  \<open>OpType\<close> (optimizer/optimizer\_defs.h) is an enumeration; an enumerator is represented by
  its number.  \<open>common::hash_t\<close> (common/hash\_util.h) and \<open>std::size_t\<close> are unsigned 64-bit
  integers.  \<open>common::HashUtil::Hash\<close> is not part of this header: every function that calls
  it takes it as the parameter \<open>HashUtil_Hash\<close>.
\<close>

type_synonym OpType = nat
type_synonym hash_t = "64 word"
type_synonym size_t = "64 word"

text \<open>
  What \<open>typeid\<close> distinguishes: the interface class, one adapter class
  \<open>OperatorNodeContents<T>\<close> per operator class \<open>T\<close>, and the operator classes themselves,
  each of which derives from its adapter.  Operator classes are numbered.
\<close>

datatype type_info =
    BaseOperatorNodeContents_class
  | OperatorNodeContents_class nat
  | Operator_class nat

text \<open>\<open>strict_base_of S K\<close>: class \<open>S\<close> is a proper base class of class \<open>K\<close>.\<close>

fun strict_base_of :: "type_info \<Rightarrow> type_info \<Rightarrow> bool" where
  "strict_base_of BaseOperatorNodeContents_class (OperatorNodeContents_class k) = True"
| "strict_base_of BaseOperatorNodeContents_class (Operator_class k) = True"
| "strict_base_of (OperatorNodeContents_class j) (Operator_class k) = (j = k)"
| "strict_base_of S K = False"

datatype error = UndefinedOperator | NullDereference

subsection \<open>The handle and the capability instance\<close>

text \<open>
  \<open>class Operator\<close>: its one member is \<open>contents_\<close>, here the field \<open>contents\<close> (a name cannot
  end in an underscore); \<open>None\<close> is the null pointer.
\<close>

record Operator =
  contents :: "nat option"

text \<open>
  An object whose class derives from \<open>BaseOperatorNodeContents\<close> through the adapter.
  \<open>typeid\<close> is its dynamic type; \<open>static_name\<close> and \<open>static_type\<close> are the adapter's static
  members \<open>name\<close> and \<open>type\<close>.  The fields of the operator class are \<open>payload\<close>, the fields
  that are plain values, and \<open>nested\<close>, the node handles that the instance holds.
  \<open>logical\<close> and \<open>physical\<close> are what \<open>IsLogical\<close> and \<open>IsPhysical\<close> return for the class.
  \<open>Hash_override\<close> is \<open>None\<close> when the class inherits \<open>BaseOperatorNodeContents::Hash\<close>,
  and otherwise the overriding function, which reads the fields.
  \<open>eq_override\<close> tells whether the class overrides \<open>operator==\<close>.
\<close>

record 'd BaseOperatorNodeContents =
  typeid :: type_info
  static_name :: string
  static_type :: OpType
  logical :: bool
  physical :: bool
  payload :: 'd
  nested :: "Operator list"
  Hash_override :: "('d \<Rightarrow> hash_t) option"
  eq_override :: bool

text \<open>\<open>OperatorNodeContents<T>::GetName\<close>: \<open>return std::string(name);\<close>\<close>

definition GetName :: "'d BaseOperatorNodeContents \<Rightarrow> string" where
  "GetName c = static_name c"

text \<open>\<open>OperatorNodeContents<T>::GetType\<close>: \<open>return type;\<close>\<close>

definition GetType :: "'d BaseOperatorNodeContents \<Rightarrow> OpType" where
  "GetType c = static_type c"

text \<open>
  \<open>OperatorNodeContents<T>::IsLogical\<close> and \<open>IsPhysical\<close> are declared without a body; their
  results for the class of the object are parameters, the fields \<open>logical\<close> and \<open>physical\<close>.
\<close>

definition IsLogical :: "'d BaseOperatorNodeContents \<Rightarrow> bool" where
  "IsLogical c = logical c"

definition IsPhysical :: "'d BaseOperatorNodeContents \<Rightarrow> bool" where
  "IsPhysical c = physical c"

text \<open>
  \<open>BaseOperatorNodeContents::Hash\<close>:
  \<^verbatim>\<open>OpType t = GetType(); return common::HashUtil::Hash(t);\<close>
\<close>

definition BaseOperatorNodeContents_Hash ::
  "(OpType \<Rightarrow> hash_t) \<Rightarrow> 'd BaseOperatorNodeContents \<Rightarrow> hash_t" where
  "BaseOperatorNodeContents_Hash HashUtil_Hash c = (let t = GetType c in HashUtil_Hash t)"

text \<open>The virtual call \<open>c.Hash()\<close>: the override of the dynamic class if it has one.\<close>

definition Hash :: "(OpType \<Rightarrow> hash_t) \<Rightarrow> 'd BaseOperatorNodeContents \<Rightarrow> hash_t" where
  "Hash HashUtil_Hash c =
     (case Hash_override c of
        None \<Rightarrow> BaseOperatorNodeContents_Hash HashUtil_Hash c
      | Some f \<Rightarrow> f (payload c))"

text \<open>\<open>BaseOperatorNodeContents::operator==\<close>: \<open>return GetType() == r.GetType();\<close>\<close>

definition BaseOperatorNodeContents_eq ::
  "'d BaseOperatorNodeContents \<Rightarrow> 'd BaseOperatorNodeContents \<Rightarrow> bool" where
  "BaseOperatorNodeContents_eq l r = (GetType l = GetType r)"

text \<open>
  Modelled from the spec: the overrides of \<open>operator==\<close> in the operator classes, which
  are not in this header.  ``Concrete kinds with semantic fields must override equality to
  compare those fields'': an override holds for two instances of one kind whose plain
  fields are equal.
\<close>

definition overridden_eq ::
  "'d BaseOperatorNodeContents \<Rightarrow> 'd BaseOperatorNodeContents \<Rightarrow> bool" where
  "overridden_eq l r = (GetType l = GetType r \<and> payload l = payload r)"

text \<open>The virtual call \<open>l == r\<close>, dispatched on the dynamic class of the left operand.\<close>

definition operator_eq ::
  "'d BaseOperatorNodeContents \<Rightarrow> 'd BaseOperatorNodeContents \<Rightarrow> bool" where
  "operator_eq l r =
     (if eq_override l then overridden_eq l r else BaseOperatorNodeContents_eq l r)"

text \<open>\<open>BaseOperatorNodeContents::operator!=\<close>: \<open>return !operator==(r);\<close>\<close>

definition operator_ne ::
  "'d BaseOperatorNodeContents \<Rightarrow> 'd BaseOperatorNodeContents \<Rightarrow> bool" where
  "operator_ne l r = (\<not> operator_eq l r)"

text \<open>
  \<open>std::hash<BaseOperatorNodeContents>::operator()\<close>: \<open>return s.Hash();\<close> with the result
  converted from \<open>hash_t\<close> to \<open>result_type = std::size_t\<close>.
\<close>

definition std_hash :: "(OpType \<Rightarrow> hash_t) \<Rightarrow> 'd BaseOperatorNodeContents \<Rightarrow> size_t" where
  "std_hash HashUtil_Hash s = ucast (Hash HashUtil_Hash s)"

subsection \<open>The store\<close>

text \<open>
  \<open>cells\<close> gives the object at each address; the addresses below \<open>next_free\<close> are the
  allocated ones, and an allocation takes the next one.
\<close>

record 'd store =
  cells :: "nat \<Rightarrow> 'd BaseOperatorNodeContents"
  next_free :: nat




text \<open>
  \<open>owned s p\<close>: the object at \<open>p\<close> and every object reached from it through nested handles,
  that is, all the state that a handle owning \<open>p\<close> gives access to.
\<close>

inductive_set owned :: "'d store \<Rightarrow> nat \<Rightarrow> nat set" for s :: "'d store" and p :: nat where
  root: "p \<in> owned s p"
| child: "a \<in> owned s p \<Longrightarrow> h \<in> set (nested (cells s a)) \<Longrightarrow> contents h = Some c
          \<Longrightarrow> c \<in> owned s p"

text \<open>
  \<open>duplicate_of s s' p q\<close>: the object at \<open>q\<close> in \<open>s'\<close> is a deep duplicate of the object at \<open>p\<close>
  in \<open>s\<close>.  The two objects agree in everything but their nested handles, and these
  correspond one by one: where one owns nothing so does the other, and where one owns an
  object the other owns a deep duplicate of it.
\<close>

inductive duplicate_of :: "'d store \<Rightarrow> 'd store \<Rightarrow> nat \<Rightarrow> nat \<Rightarrow> bool"
  and duplicates_of :: "'d store \<Rightarrow> 'd store \<Rightarrow> Operator list \<Rightarrow> Operator list \<Rightarrow> bool"
  for s :: "'d store" and s' :: "'d store"
where
  object: "(cells s' q)\<lparr>nested := []\<rparr> = (cells s p)\<lparr>nested := []\<rparr>
     \<Longrightarrow> duplicates_of s s' (nested (cells s p)) (nested (cells s' q))
     \<Longrightarrow> duplicate_of s s' p q"
| no_handles: "duplicates_of s s' [] []"
| undefined_handle: "contents h = None \<Longrightarrow> contents h' = None \<Longrightarrow> duplicates_of s s' hs hs'
     \<Longrightarrow> duplicates_of s s' (h # hs) (h' # hs')"
| defined_handle: "contents h = Some c \<Longrightarrow> contents h' = Some c' \<Longrightarrow> duplicate_of s s' c c'
     \<Longrightarrow> duplicates_of s s' hs hs'
     \<Longrightarrow> duplicates_of s s' (h # hs) (h' # hs')"



text \<open>
  Modelled from the spec: \<open>BaseOperatorNodeContents::Copy\<close> is pure virtual here and in the
  adapter, and its overrides are in the operator classes, outside this header.  ``Produces a
  deep, independent duplicate; the original and the copy share no mutable state, including
  transitively through any nested node handles the instance owns'': \<open>Copy s p\<close> first
  duplicates, in order, the object owned by each nested handle (\<open>Copy_nested\<close>), then
  allocates an object with the class and the plain fields of the one at \<open>p\<close> and with the
  handles to the duplicates; it returns the pointer to that object and the store after the
  allocations.  A nested handle that owns nothing is duplicated as a handle that owns
  nothing.  The recursion follows nested handles to smaller addresses only; a handle to
  another address, of which a well-formed store has none, is kept as it is.
\<close>

fun Copy :: "'d store \<Rightarrow> nat \<Rightarrow> nat \<times> 'd store"
  and Copy_nested :: "'d store \<Rightarrow> nat \<Rightarrow> Operator list \<Rightarrow> Operator list \<times> 'd store"
where
  "Copy s p =
     (case Copy_nested s p (nested (cells s p)) of (hs, s1) \<Rightarrow>
        (next_free s1,
         s1\<lparr>cells := (cells s1)(next_free s1 := (cells s p)\<lparr>nested := hs\<rparr>),
            next_free := Suc (next_free s1)\<rparr>))"
| "Copy_nested s p [] = ([], s)"
| "Copy_nested s p (h # hs) =
     (case contents h of
        None \<Rightarrow> (case Copy_nested s p hs of (hs', s') \<Rightarrow> (h # hs', s'))
      | Some c \<Rightarrow>
          if c < p then
            (case Copy s c of (q, s1) \<Rightarrow>
               (case Copy_nested s1 p hs of (hs', s2) \<Rightarrow> (\<lparr>contents = Some q\<rparr> # hs', s2)))
          else (case Copy_nested s p hs of (hs', s') \<Rightarrow> (h # hs', s')))"

subsection \<open>The member functions of the handle\<close>

text \<open>
  \<open>Operator::Operator(const Operator &op) : contents_(op.contents_->Copy()) {}\<close>
  The arrow dereferences \<open>op.contents_\<close> without a test.
\<close>

definition Operator_copy :: "'d store \<Rightarrow> Operator \<Rightarrow> error + (Operator \<times> 'd store)" where
  "Operator_copy s op =
     (case contents op of
        None \<Rightarrow> Inl NullDereference
      | Some p \<Rightarrow> (case Copy s p of (q, s') \<Rightarrow> Inr (\<lparr>contents = Some q\<rparr>, s')))"

text \<open>
  \<open>Operator::As<T>\<close>:
  \<^verbatim>\<open>
  if (contents_) {
    auto &n = *contents_;
    if (typeid(n) == typeid(T)) {
      return common::ManagedPointer<T>(reinterpret_cast<T *>(contents_.get()));
    }
  }
  return nullptr;
  \<close>
  The result is the address held by the managed pointer, \<open>None\<close> for \<open>nullptr\<close>.
\<close>

definition As :: "'d store \<Rightarrow> type_info \<Rightarrow> Operator \<Rightarrow> nat option" where
  "As s T h =
     (case contents h of
        Some p \<Rightarrow> (let n = cells s p in if typeid n = T then Some p else None)
      | None \<Rightarrow> None)"

text \<open>
  The default constructor and the member functions \<open>GetType\<close>, \<open>Hash\<close> and \<open>operator==\<close> of
  \<open>Operator\<close> are declared in this header without a body.  Each of the definitions that
  follow, up to \<open>Operator_eq\<close>, is modelled from the sentence of the specification quoted
  with it.
\<close>

text \<open>
  Modelled from the spec: \<open>Operator::Operator() noexcept\<close>.
  ``Default construction produces an undefined handle (no owned instance).''
\<close>

definition Operator_default :: Operator where
  "Operator_default = \<lparr>contents = None\<rparr>"

text \<open>
  Modelled from the spec: the forwarding member functions of \<open>Operator\<close>.
  ``\<open>Accept(visitor)\<close>, \<open>GetName()\<close>, \<open>GetType()\<close>, \<open>Hash()\<close>, \<open>IsLogical()\<close>, \<open>IsPhysical()\<close>
  forward to the owned instance; each fails with an "undefined operator" error if the handle
  holds no instance.''  \<open>forward s h f\<close> is that pattern for the member function \<open>f\<close> of the
  owned instance.
\<close>

definition forward :: "'d store \<Rightarrow> Operator \<Rightarrow> ('d BaseOperatorNodeContents \<Rightarrow> 'a) \<Rightarrow> error + 'a" where
  "forward s h f =
     (case contents h of None \<Rightarrow> Inl UndefinedOperator | Some p \<Rightarrow> Inr (f (cells s p)))"


text \<open>Modelled from the spec: \<open>Operator::Hash\<close>, by the sentence quoted above.\<close>

definition Operator_Hash :: "(OpType \<Rightarrow> hash_t) \<Rightarrow> 'd store \<Rightarrow> Operator \<Rightarrow> error + hash_t" where
  "Operator_Hash HashUtil_Hash s h = forward s h (Hash HashUtil_Hash)"

text \<open>
  Modelled from the spec: \<open>Operator::operator==\<close>.  ``\<open>operator==(rhs) -> bool\<close>: delegates
  to the owned instance's equality''.  For the case that one of the two handles owns nothing
  the specification goes on in two ways that disagree: ``two undefined handles are considered
  equal to each other but not to any defined handle (edge case the implementation must define
  explicitly -- the source leaves this implicit via the owned-instance comparison, which
  would fail on an undefined handle ...)'', and its error taxonomy lists equality among the
  operations that fail with the undefined-operator error on a handle with no owned instance.
  The header has no body that decides between them, so what the comparison does in that case
  is the parameter \<open>on_undefined\<close>.
\<close>

definition Operator_eq ::
  "(Operator \<Rightarrow> Operator \<Rightarrow> error + bool) \<Rightarrow> 'd store \<Rightarrow> Operator \<Rightarrow> Operator \<Rightarrow> error + bool"
  where
  "Operator_eq on_undefined s a b =
     (case (contents a, contents b) of
        (Some p, Some q) \<Rightarrow> Inr (operator_eq (cells s p) (cells s q))
      | _ \<Rightarrow> on_undefined a b)"

text \<open>\<open>Operator::operator!=\<close>: \<open>return !operator==(rhs);\<close>\<close>

definition Operator_ne ::
  "(Operator \<Rightarrow> Operator \<Rightarrow> error + bool) \<Rightarrow> 'd store \<Rightarrow> Operator \<Rightarrow> Operator \<Rightarrow> error + bool"
  where
  "Operator_ne on_undefined s a b =
     (case Operator_eq on_undefined s a b of Inl e \<Rightarrow> Inl e | Inr v \<Rightarrow> Inr (\<not> v))"

subsection \<open>Example objects\<close>

text \<open>
  A hash of type tags; an operator class that inherits \<open>Hash\<close> and \<open>operator==\<close>, one that
  overrides both, and one whose instances hold two nested handles; and a store with four
  allocated objects, where the object at address 3 holds a handle to the one at address 2
  and a handle that owns nothing.  The theorems below are run on them.
\<close>

definition example_hash :: "OpType \<Rightarrow> hash_t" where
  "example_hash t = word_of_nat t + 17"

definition example_plain :: "nat \<Rightarrow> nat BaseOperatorNodeContents" where
  "example_plain x =
     \<lparr>typeid = Operator_class 1, static_name = ''Plain'', static_type = 1,
      logical = True, physical = False, payload = x, nested = [],
      Hash_override = None, eq_override = False\<rparr>"

definition example_keyed :: "nat \<Rightarrow> nat BaseOperatorNodeContents" where
  "example_keyed x =
     \<lparr>typeid = Operator_class 2, static_name = ''Keyed'', static_type = 2,
      logical = False, physical = True, payload = x, nested = [],
      Hash_override = Some (\<lambda>d. word_of_nat d), eq_override = True\<rparr>"

definition example_holder :: "Operator list \<Rightarrow> nat BaseOperatorNodeContents" where
  "example_holder hs =
     \<lparr>typeid = Operator_class 3, static_name = ''Holder'', static_type = 3,
      logical = True, physical = False, payload = 9, nested = hs,
      Hash_override = None, eq_override = True\<rparr>"

definition example_store :: "nat store" where
  "example_store =
     \<lparr>cells = (\<lambda>a. if a = 0 then example_plain 3 else if a = 1 then example_plain 4
                  else if a = 2 then example_keyed 5
                  else if a = 3 then example_holder [\<lparr>contents = Some 2\<rparr>, \<lparr>contents = None\<rparr>]
                  else example_plain 0),
      next_free = 4\<rparr>"


section \<open>Properties\<close>

subsection \<open>The defaults of the interface\<close>

text \<open>
  C4.  For an instance whose class does not override equality, \<open>l == r\<close> holds exactly when
  the two type tags are equal, \<open>l != r\<close> exactly when they differ, and neither instance's
  fields change the result.  The call dispatches on the left operand, so only its class
  matters.
\<close>

theorem default_eq_iff_same_type:
  assumes "\<not> eq_override l"
  shows "operator_eq l r = (GetType l = GetType r)
     \<and> operator_ne l r = (GetType l \<noteq> GetType r)
     \<and> (\<forall>x y. operator_eq (l\<lparr>payload := x\<rparr>) (r\<lparr>payload := y\<rparr>) = operator_eq l r)"
  using assms
  by (simp add: operator_eq_def operator_ne_def BaseOperatorNodeContents_eq_def GetType_def)

theorem default_eq_iff_same_type_witness:
  "\<not> eq_override (example_plain 3)
   \<and> operator_eq (example_plain 3) (example_plain 4) = True
   \<and> operator_eq (example_plain 3) (example_keyed 3) = False"
  using default_eq_iff_same_type [of "example_plain 3" "example_plain 4"]
    default_eq_iff_same_type [of "example_plain 3" "example_keyed 3"]
  by (simp add: example_plain_def example_keyed_def GetType_def)

text \<open>
  C5.  For an instance whose class does not override \<open>Hash\<close>, \<open>Hash()\<close> is the hash of the
  type tag, \<open>HashUtil::Hash(GetType())\<close>, and the fields of the instance do not enter it.
\<close>

theorem default_Hash_is_type_hash:
  assumes "Hash_override c = None"
  shows "Hash H c = H (GetType c) \<and> (\<forall>x. Hash H (c\<lparr>payload := x\<rparr>) = Hash H c)"
  using assms by (simp add: Hash_def BaseOperatorNodeContents_Hash_def GetType_def)

theorem default_Hash_is_type_hash_witness:
  "Hash_override (example_plain 3) = None
   \<and> Hash example_hash (example_plain 3) = 18
   \<and> Hash example_hash (example_plain 4) = 18"
  using default_Hash_is_type_hash [of "example_plain 3" example_hash]
    default_Hash_is_type_hash [of "example_plain 4" example_hash]
  by (simp add: example_plain_def example_hash_def GetType_def)

text \<open>
  C9.  The \<open>std::hash\<close> specialisation applied to an instance returns that instance's
  \<open>Hash()\<close>, whether the class overrides \<open>Hash\<close> or not.
\<close>

theorem std_hash_is_Hash: "std_hash H s = Hash H s"
  by (simp add: std_hash_def)

theorem std_hash_is_Hash_witness:
  "std_hash example_hash (example_plain 3) = 18 \<and> std_hash example_hash (example_keyed 5) = 5"
  using std_hash_is_Hash [of example_hash "example_plain 3"]
    std_hash_is_Hash [of example_hash "example_keyed 5"]
  by (simp add: Hash_def BaseOperatorNodeContents_Hash_def GetType_def example_plain_def
      example_keyed_def example_hash_def)

subsection \<open>The checked downcast\<close>

lemma strict_base_of_neq: "strict_base_of S K \<Longrightarrow> S \<noteq> K"
  by (cases S; cases K) auto

text \<open>
  C2.  \<open>h.As<T>()\<close> is the pointer to the owned instance when the handle owns one and the
  dynamic type of that instance is exactly \<open>T\<close>; in every other case, a handle that owns
  nothing included, it is the null pointer.  The function has no failing branch.
\<close>

theorem As_exact_type:
  "As s T h =
     (if \<exists>p. contents h = Some p \<and> typeid (cells s p) = T then contents h else None)"
  by (auto simp: As_def split: option.splits)

theorem As_exact_type_witness:
  "As example_store (Operator_class 1) \<lparr>contents = Some 0\<rparr> = Some 0
   \<and> As example_store (Operator_class 2) \<lparr>contents = Some 0\<rparr> = None
   \<and> As example_store (Operator_class 1) \<lparr>contents = None\<rparr> = None"
  using As_exact_type [of example_store "Operator_class 1" "\<lparr>contents = Some 0\<rparr>"]
    As_exact_type [of example_store "Operator_class 2" "\<lparr>contents = Some 0\<rparr>"]
    As_exact_type [of example_store "Operator_class 1" "\<lparr>contents = None\<rparr>"]
  by (simp add: example_store_def example_plain_def)

text \<open>
  C10.  When the handle owns an instance of dynamic type \<open>K\<close> and \<open>S\<close> is a proper base
  class of \<open>K\<close> (the adapter \<open>OperatorNodeContents<K>\<close> or the interface itself),
  \<open>h.As<S>()\<close> is the null pointer.
\<close>

theorem As_strict_base_absent:
  assumes "contents h = Some p" and "typeid (cells s p) = K" and "strict_base_of S K"
  shows "As s S h = None"
  using assms strict_base_of_neq [of S K] by (auto simp: As_def)

theorem As_strict_base_absent_witness:
  "contents \<lparr>contents = Some 0\<rparr> = Some 0
   \<and> typeid (cells example_store 0) = Operator_class 1
   \<and> strict_base_of (OperatorNodeContents_class 1) (Operator_class 1)
   \<and> strict_base_of BaseOperatorNodeContents_class (Operator_class 1)
   \<and> As example_store (OperatorNodeContents_class 1) \<lparr>contents = Some 0\<rparr> = None
   \<and> As example_store BaseOperatorNodeContents_class \<lparr>contents = Some 0\<rparr> = None"
  using As_strict_base_absent [of "\<lparr>contents = Some 0\<rparr>" 0 example_store "Operator_class 1"
      "OperatorNodeContents_class 1"]
    As_strict_base_absent [of "\<lparr>contents = Some 0\<rparr>" 0 example_store "Operator_class 1"
      BaseOperatorNodeContents_class]
  by (simp add: example_store_def example_plain_def)


subsection \<open>Copying a handle\<close>

text \<open>
  C8.  The copy constructor applied to a handle that owns nothing, such as a default
  constructed one, dereferences the null pointer.
\<close>

theorem Operator_copy_of_undefined:
  "Operator_copy example_store Operator_default = Inl NullDereference"
  by (simp add: Operator_copy_def Operator_default_def)
























subsection \<open>Equality and hashing of handles\<close>

text \<open>
  C1.  For two handles that each own an instance whose class inherits both \<open>Hash\<close> and
  \<open>operator==\<close> from the interface, \<open>a == b\<close> implies that \<open>a.Hash()\<close> and \<open>b.Hash()\<close>
  return the same value: both defaults depend on the type tag only.
\<close>

theorem default_eq_implies_equal_hash:
  assumes "contents a = Some p" and "contents b = Some q"
    and "Hash_override (cells s p) = None" and "Hash_override (cells s q) = None"
    and "\<not> eq_override (cells s p)" and "\<not> eq_override (cells s q)"
    and "Operator_eq on_undefined s a b = Inr True"
  shows "\<exists>v. Operator_Hash H s a = Inr v \<and> Operator_Hash H s b = Inr v"
  using assms
  by (simp add: Operator_eq_def Operator_Hash_def forward_def Hash_def operator_eq_def
      BaseOperatorNodeContents_eq_def BaseOperatorNodeContents_Hash_def)

theorem default_eq_implies_equal_hash_witness:
  "contents \<lparr>contents = Some 0\<rparr> = Some 0 \<and> contents \<lparr>contents = Some 1\<rparr> = Some 1
   \<and> Hash_override (cells example_store 0) = None
   \<and> Hash_override (cells example_store 1) = None
   \<and> \<not> eq_override (cells example_store 0) \<and> \<not> eq_override (cells example_store 1)
   \<and> Operator_eq (\<lambda>a b. Inl UndefinedOperator) example_store
         \<lparr>contents = Some 0\<rparr> \<lparr>contents = Some 1\<rparr> = Inr True
   \<and> Operator_Hash example_hash example_store \<lparr>contents = Some 0\<rparr> = Inr 18
   \<and> Operator_Hash example_hash example_store \<lparr>contents = Some 1\<rparr> = Inr 18"
  using default_eq_implies_equal_hash [of "\<lparr>contents = Some 0\<rparr>" 0 "\<lparr>contents = Some 1\<rparr>" 1
      example_store "\<lambda>a b. Inl UndefinedOperator" example_hash]
  by (simp add: example_store_def example_plain_def Operator_eq_def operator_eq_def
      BaseOperatorNodeContents_eq_def GetType_def Operator_Hash_def forward_def Hash_def
      BaseOperatorNodeContents_Hash_def example_hash_def)

end
